theory Spec2Isabelle
  imports Main "HOL-Library.Char_ord"
begin

section \<open>Go strings and the helpers of package strings\<close>

text \<open>
  A Go string is a sequence of bytes; it is modelled as a \<^typ>\<open>string\<close>, whose characters
  are bytes. The functions of package \<^verbatim>\<open>strings\<close> that the client calls are written out
  below with the argument order of the Go functions.
\<close>

definition HasPrefix :: "string \<Rightarrow> string \<Rightarrow> bool" where
  "HasPrefix s pre = (length pre \<le> length s \<and> take (length pre) s = pre)"

definition HasSuffix :: "string \<Rightarrow> string \<Rightarrow> bool" where
  "HasSuffix s suf = (length suf \<le> length s \<and> drop (length s - length suf) s = suf)"

definition TrimPrefix :: "string \<Rightarrow> string \<Rightarrow> string" where
  "TrimPrefix s pre = (if HasPrefix s pre then drop (length pre) s else s)"

definition TrimSuffix :: "string \<Rightarrow> string \<Rightarrow> string" where
  "TrimSuffix s suf = (if HasSuffix s suf then take (length s - length suf) s else s)"

text \<open>\<^verbatim>\<open>strings.Index\<close>: the position of the first occurrence, \<open>None\<close> for Go's \<open>-1\<close>.\<close>

fun Index :: "string \<Rightarrow> string \<Rightarrow> nat option" where
  "Index [] sep = (if sep = [] then Some 0 else None)"
| "Index (c # s) sep =
     (if HasPrefix (c # s) sep then Some 0 else map_option Suc (Index s sep))"

text \<open>\<^verbatim>\<open>strings.LastIndex\<close>: the position of the last occurrence.\<close>

definition LastIndex :: "string \<Rightarrow> string \<Rightarrow> nat option" where
  "LastIndex s sep =
     (case Index (rev s) (rev sep) of
        None \<Rightarrow> None
      | Some i \<Rightarrow> Some (length s - length sep - i))"

text \<open>\<^verbatim>\<open>strings.Count\<close> for a separator of one byte.\<close>

definition CountByte :: "string \<Rightarrow> char \<Rightarrow> nat" where
  "CountByte s c = length (filter (\<lambda>x. x = c) s)"

definition Contains :: "string \<Rightarrow> string \<Rightarrow> bool" where
  "Contains s sub = (Index s sub \<noteq> None)"

text \<open>
  \<^verbatim>\<open>strings.ToLower\<close> on the bytes of the ASCII range. The client reaches it only through
  \<^verbatim>\<open>url.Parse\<close>, which applies it to a scheme, made of ASCII letters, digits and
  \<^verbatim>\<open>+-.\<close> only.
\<close>

definition lowerByte :: "char \<Rightarrow> char" where
  "lowerByte c = (if CHR ''A'' \<le> c \<and> c \<le> CHR ''Z'' then char_of (of_char c + (32::nat)) else c)"

definition ToLower :: "string \<Rightarrow> string" where
  "ToLower s = map lowerByte s"

subsection \<open>strings.TrimSpace\<close>

text \<open>
  \<^verbatim>\<open>strings.TrimSpace\<close> removes the runes for which \<^verbatim>\<open>unicode.IsSpace\<close> holds from both
  ends of the UTF-8 text: the six ASCII spaces, U+0085, U+00A0, U+1680, U+2000 to U+200A,
  U+2028, U+2029, U+202F, U+205F and U+3000. \<open>leadingSpace\<close> is the number of bytes of the
  space rune a string starts with (0 when it starts with none); \<open>trailingSpace\<close> reads
  the reversed string in the same way.
\<close>

definition asciiSpace :: "char \<Rightarrow> bool" where
  "asciiSpace c = (c = CHR 0x09 \<or> c = CHR 0x0A \<or> c = CHR 0x0B \<or> c = CHR 0x0C
                   \<or> c = CHR 0x0D \<or> c = CHR 0x20)"

definition e280Space :: "char \<Rightarrow> bool" where
  \<comment> \<open>third byte of U+2000..U+200A, U+2028, U+2029, U+202F after \<open>E2 80\<close>\<close>
  "e280Space c = ((CHR 0x80 \<le> c \<and> c \<le> CHR 0x8A) \<or> c = CHR 0xA8 \<or> c = CHR 0xA9 \<or> c = CHR 0xAF)"

fun leadingSpace :: "string \<Rightarrow> nat" where
  "leadingSpace (a # b # c # s) =
     (if asciiSpace a then 1
      else if a = CHR 0xC2 \<and> (b = CHR 0x85 \<or> b = CHR 0xA0) then 2
      else if a = CHR 0xE1 \<and> b = CHR 0x9A \<and> c = CHR 0x80 then 3
      else if a = CHR 0xE2 \<and> b = CHR 0x80 \<and> e280Space c then 3
      else if a = CHR 0xE2 \<and> b = CHR 0x81 \<and> c = CHR 0x9F then 3
      else if a = CHR 0xE3 \<and> b = CHR 0x80 \<and> c = CHR 0x80 then 3
      else 0)"
| "leadingSpace [a, b] =
     (if asciiSpace a then 1
      else if a = CHR 0xC2 \<and> (b = CHR 0x85 \<or> b = CHR 0xA0) then 2
      else 0)"
| "leadingSpace [a] = (if asciiSpace a then 1 else 0)"
| "leadingSpace [] = 0"

fun trailingSpace :: "string \<Rightarrow> nat" where
  "trailingSpace (c # b # a # r) =
     (if asciiSpace c then 1
      else if b = CHR 0xC2 \<and> (c = CHR 0x85 \<or> c = CHR 0xA0) then 2
      else if a = CHR 0xE1 \<and> b = CHR 0x9A \<and> c = CHR 0x80 then 3
      else if a = CHR 0xE2 \<and> b = CHR 0x80 \<and> e280Space c then 3
      else if a = CHR 0xE2 \<and> b = CHR 0x81 \<and> c = CHR 0x9F then 3
      else if a = CHR 0xE3 \<and> b = CHR 0x80 \<and> c = CHR 0x80 then 3
      else 0)"
| "trailingSpace [c, b] =
     (if asciiSpace c then 1
      else if b = CHR 0xC2 \<and> (c = CHR 0x85 \<or> c = CHR 0xA0) then 2
      else 0)"
| "trailingSpace [c] = (if asciiSpace c then 1 else 0)"
| "trailingSpace [] = 0"

function TrimLeftSpace :: "string \<Rightarrow> string" where
  "TrimLeftSpace s = (if leadingSpace s = 0 then s else TrimLeftSpace (drop (leadingSpace s) s))"
  by pat_completeness auto
termination
proof (relation "measure length")
  fix s :: string
  assume "leadingSpace s \<noteq> 0"
  then have "s \<noteq> []" by (cases s) simp_all
  with \<open>leadingSpace s \<noteq> 0\<close> show "(drop (leadingSpace s) s, s) \<in> measure length" by simp
qed simp

function TrimRightSpace_rev :: "string \<Rightarrow> string" where
  "TrimRightSpace_rev r =
     (if trailingSpace r = 0 then r else TrimRightSpace_rev (drop (trailingSpace r) r))"
  by pat_completeness auto
termination
proof (relation "measure length")
  fix r :: string
  assume "trailingSpace r \<noteq> 0"
  then have "r \<noteq> []" by (cases r) simp_all
  with \<open>trailingSpace r \<noteq> 0\<close> show "(drop (trailingSpace r) r, r) \<in> measure length" by simp
qed simp

definition TrimSpace :: "string \<Rightarrow> string" where
  "TrimSpace s = rev (TrimRightSpace_rev (rev (TrimLeftSpace s)))"


section \<open>Errors\<close>

text \<open>
  \<^verbatim>\<open>apitype.ErrorResponse\<close> is declared outside the files at hand.
  Modelled from the spec: an ErrorPayload is a numeric code and a human-readable message.
  A Go \<^verbatim>\<open>int\<close> holds every HTTP status code; no arithmetic is done on it.
\<close>

record ErrorResponse =
  Code :: int
  Message :: string

text \<open>
  An \<^verbatim>\<open>error\<close> value keeps how it was built: \<open>ErrorNew msg\<close> for \<^verbatim>\<open>errors.New\<close> and
  \<^verbatim>\<open>errors.Errorf\<close>, \<open>ErrorWrap ctx err\<close> for \<^verbatim>\<open>fmt.Errorf("ctx: %v", err)\<close> and
  \<^verbatim>\<open>errors.Wrapf(err, "ctx")\<close>, the error types of \<^verbatim>\<open>net/url\<close>, and \<open>ErrorResp\<close> for a
  returned \<^verbatim>\<open>*apitype.ErrorResponse\<close>.
\<close>

datatype error =
    ErrorNew string
  | ErrorWrap string error
  | EscapeError string
  | InvalidHostError string
  | UrlError string string error
  | ErrorResp ErrorResponse

section \<open>Package net/url\<close>

text \<open>
  \<^verbatim>\<open>url.Parse\<close> and \<^verbatim>\<open>(*URL).String\<close> belong to the Go standard library. They are written
  out after \<^verbatim>\<open>net/url\<close> of Go 1.9, the release current when the client was written,
  function by function and with its names.
\<close>

record Userinfo =
  username :: string
  password :: string
  passwordSet :: bool

record URL =
  Scheme :: string
  Opaque :: string
  User :: "Userinfo option"
  Host :: string
  Path :: string
  RawPath :: string
  ForceQuery :: bool
  RawQuery :: string
  Fragment :: string

definition emptyURL :: URL where
  "emptyURL = \<lparr>Scheme = [], Opaque = [], User = None, Host = [], Path = [], RawPath = [],
               ForceQuery = False, RawQuery = [], Fragment = []\<rparr>"

datatype encoding =
    encodePath | encodePathSegment | encodeHost | encodeZone
  | encodeUserPassword | encodeQueryComponent | encodeFragment

definition isAlnum :: "char \<Rightarrow> bool" where
  "isAlnum c = (CHR ''A'' \<le> c \<and> c \<le> CHR ''Z'' \<or> CHR ''a'' \<le> c \<and> c \<le> CHR ''z''
                \<or> CHR ''0'' \<le> c \<and> c \<le> CHR ''9'')"

definition ishex :: "char \<Rightarrow> bool" where
  "ishex c = (CHR ''0'' \<le> c \<and> c \<le> CHR ''9'' \<or> CHR ''a'' \<le> c \<and> c \<le> CHR ''f''
              \<or> CHR ''A'' \<le> c \<and> c \<le> CHR ''F'')"

definition unhex :: "char \<Rightarrow> nat" where
  "unhex c =
     (if CHR ''0'' \<le> c \<and> c \<le> CHR ''9'' then of_char c - of_char CHR ''0''
      else if CHR ''a'' \<le> c \<and> c \<le> CHR ''f'' then of_char c - of_char CHR ''a'' + 10
      else if CHR ''A'' \<le> c \<and> c \<le> CHR ''F'' then of_char c - of_char CHR ''A'' + 10
      else 0)"

text \<open>The byte \<open>0x27\<close> is the apostrophe and \<open>0x22\<close> the double quote.\<close>

definition shouldEscape :: "char \<Rightarrow> encoding \<Rightarrow> bool" where
  "shouldEscape c mode =
     (if isAlnum c then False
      else if (mode = encodeHost \<or> mode = encodeZone)
              \<and> (c \<in> set ''!$&()*+,;=:[]<>'' \<or> c = CHR 0x27 \<or> c = CHR 0x22) then False
      else if c \<in> set ''-_.~'' then False
      else if c \<in> set ''$&+,/:;=?@'' then
        (case mode of
           encodePath \<Rightarrow> c = CHR ''?''
         | encodePathSegment \<Rightarrow> c = CHR ''/'' \<or> c = CHR '';'' \<or> c = CHR '','' \<or> c = CHR ''?''
         | encodeUserPassword \<Rightarrow> c = CHR ''@'' \<or> c = CHR ''/'' \<or> c = CHR ''?'' \<or> c = CHR '':''
         | encodeQueryComponent \<Rightarrow> True
         | encodeFragment \<Rightarrow> False
         | _ \<Rightarrow> True)
      else True)"

text \<open>
  \<^verbatim>\<open>unescape\<close> first walks the whole string for malformed escapes (\<open>unescapeCheck\<close>), then
  decodes it (\<open>unescapeDecode\<close>).
\<close>

definition unescapeByte :: "char \<Rightarrow> char \<Rightarrow> char" where
  "unescapeByte h1 h2 = char_of (unhex h1 * 16 + unhex h2)"

fun unescapeCheck :: "string \<Rightarrow> encoding \<Rightarrow> error option" where
  "unescapeCheck [] mode = None"
| "unescapeCheck (c # s) mode =
     (if c = CHR ''%'' then
        (case s of
           h1 # h2 # s' \<Rightarrow>
             if \<not> ishex h1 \<or> \<not> ishex h2 then Some (EscapeError [c, h1, h2])
             else if mode = encodeHost \<and> unhex h1 < 8 \<and> [c, h1, h2] \<noteq> ''%25''
               then Some (EscapeError [c, h1, h2])
             else if mode = encodeZone \<and> [c, h1, h2] \<noteq> ''%25''
                     \<and> unescapeByte h1 h2 \<noteq> CHR '' ''
                     \<and> shouldEscape (unescapeByte h1 h2) encodeHost
               then Some (EscapeError [c, h1, h2])
             else unescapeCheck s' mode
         | _ \<Rightarrow> Some (EscapeError (c # s)))
      else if (mode = encodeHost \<or> mode = encodeZone) \<and> c < CHR 0x80
              \<and> shouldEscape c encodeHost then Some (InvalidHostError [c])
      else unescapeCheck s mode)"

fun unescapeDecode :: "string \<Rightarrow> encoding \<Rightarrow> string" where
  "unescapeDecode [] mode = []"
| "unescapeDecode (c # s) mode =
     (if c = CHR ''%'' then
        (case s of
           h1 # h2 # s' \<Rightarrow> unescapeByte h1 h2 # unescapeDecode s' mode
         | _ \<Rightarrow> [])
      else if c = CHR ''+'' then
        (if mode = encodeQueryComponent then CHR '' '' else CHR ''+'') # unescapeDecode s mode
      else c # unescapeDecode s mode)"

definition unescape :: "string \<Rightarrow> encoding \<Rightarrow> error + string" where
  "unescape s mode =
     (case unescapeCheck s mode of
        Some err \<Rightarrow> Inl err
      | None \<Rightarrow> Inr (unescapeDecode s mode))"

definition upperhex :: "nat \<Rightarrow> char" where
  "upperhex n = ''0123456789ABCDEF'' ! (n mod 16)"

definition escapeByte :: "encoding \<Rightarrow> char \<Rightarrow> string" where
  "escapeByte mode c =
     (if c = CHR '' '' \<and> mode = encodeQueryComponent then ''+''
      else if shouldEscape c mode
        then [CHR ''%'', upperhex (of_char c div 16), upperhex (of_char c mod 16)]
      else [c])"

definition escape :: "string \<Rightarrow> encoding \<Rightarrow> string" where
  "escape s mode = concat (map (escapeByte mode) s)"

definition Userinfo_String :: "Userinfo \<Rightarrow> string" where
  "Userinfo_String u =
     (let s = escape (username u) encodeUserPassword
      in if passwordSet u then s @ '':'' @ escape (password u) encodeUserPassword else s)"

text \<open>
  \<^verbatim>\<open>getscheme\<close> walks \<open>rawurl\<close> byte by byte; \<open>seen\<close> is the part already walked,
  \<^verbatim>\<open>rawurl[:i]\<close>, so that \<^verbatim>\<open>i == 0\<close> reads \<open>seen = []\<close>.
\<close>

fun getschemeLoop :: "string \<Rightarrow> string \<Rightarrow> string \<Rightarrow> error + (string \<times> string)" where
  "getschemeLoop rawurl seen [] = Inr ([], rawurl)"
| "getschemeLoop rawurl seen (c # cs) =
     (if CHR ''a'' \<le> c \<and> c \<le> CHR ''z'' \<or> CHR ''A'' \<le> c \<and> c \<le> CHR ''Z''
        then getschemeLoop rawurl (seen @ [c]) cs
      else if CHR ''0'' \<le> c \<and> c \<le> CHR ''9'' \<or> c = CHR ''+'' \<or> c = CHR ''-'' \<or> c = CHR ''.''
        then (if seen = [] then Inr ([], rawurl) else getschemeLoop rawurl (seen @ [c]) cs)
      else if c = CHR '':''
        then (if seen = [] then Inl (ErrorNew ''missing protocol scheme'') else Inr (seen, cs))
      else Inr ([], rawurl))"

definition getscheme :: "string \<Rightarrow> error + (string \<times> string)" where
  "getscheme rawurl = getschemeLoop rawurl [] rawurl"

text \<open>\<^verbatim>\<open>split(s, c, cutc)\<close> cuts \<open>s\<close> at the first \<open>c\<close>, dropping \<open>c\<close> when \<open>cutc\<close>.\<close>

definition split :: "string \<Rightarrow> string \<Rightarrow> bool \<Rightarrow> string \<times> string" where
  "split s c cutc =
     (case Index s c of
        None \<Rightarrow> (s, [])
      | Some i \<Rightarrow> if cutc then (take i s, drop (i + length c) s) else (take i s, drop i s))"

text \<open>
  \<^verbatim>\<open>parseHost\<close> reports a bad port with \<^verbatim>\<open>fmt.Errorf("invalid port %q after host", colonPort)\<close>;
  the message below leaves the quoting of \<^verbatim>\<open>%q\<close> out.
\<close>

definition validOptionalPort :: "string \<Rightarrow> bool" where
  "validOptionalPort port =
     (case port of
        [] \<Rightarrow> True
      | c # ds \<Rightarrow> c = CHR '':'' \<and> list_all (\<lambda>b. CHR ''0'' \<le> b \<and> b \<le> CHR ''9'') ds)"

definition parseHost :: "string \<Rightarrow> error + string" where
  "parseHost host =
     (let plain = unescape host encodeHost in
      if HasPrefix host ''['' then
        (case LastIndex host '']'' of
           None \<Rightarrow> Inl (ErrorNew ''missing ']' in host'')
         | Some i \<Rightarrow>
             if \<not> validOptionalPort (drop (i + 1) host)
               then Inl (ErrorNew (''invalid port '' @ drop (i + 1) host @ '' after host''))
             else
               (case Index (take i host) ''%25'' of
                  None \<Rightarrow> plain
                | Some zone \<Rightarrow>
                    (case unescape (take zone host) encodeHost of
                       Inl err \<Rightarrow> Inl err
                     | Inr host1 \<Rightarrow>
                         (case unescape (drop zone (take i host)) encodeZone of
                            Inl err \<Rightarrow> Inl err
                          | Inr host2 \<Rightarrow>
                              (case unescape (drop i host) encodeHost of
                                 Inl err \<Rightarrow> Inl err
                               | Inr host3 \<Rightarrow> Inr (host1 @ host2 @ host3))))))
      else plain)"

definition parseAuthority :: "string \<Rightarrow> error + (Userinfo option \<times> string)" where
  "parseAuthority authority =
     (case LastIndex authority ''@'' of
        None \<Rightarrow> (case parseHost authority of Inl err \<Rightarrow> Inl err | Inr host \<Rightarrow> Inr (None, host))
      | Some i \<Rightarrow>
          (case parseHost (drop (i + 1) authority) of
             Inl err \<Rightarrow> Inl err
           | Inr host \<Rightarrow>
               (let userinfo = take i authority in
                if \<not> Contains userinfo '':'' then
                  (case unescape userinfo encodeUserPassword of
                     Inl err \<Rightarrow> Inl err
                   | Inr u \<Rightarrow>
                       Inr (Some \<lparr>username = u, password = [], passwordSet = False\<rparr>, host))
                else
                  (case unescape (fst (split userinfo '':'' True)) encodeUserPassword of
                     Inl err \<Rightarrow> Inl err
                   | Inr u \<Rightarrow>
                       (case unescape (snd (split userinfo '':'' True)) encodeUserPassword of
                          Inl err \<Rightarrow> Inl err
                        | Inr p \<Rightarrow>
                            Inr (Some \<lparr>username = u, password = p, passwordSet = True\<rparr>,
                                 host))))))"

definition setPath :: "URL \<Rightarrow> string \<Rightarrow> error + URL" where
  "setPath u p =
     (case unescape p encodePath of
        Inl err \<Rightarrow> Inl err
      | Inr path \<Rightarrow>
          Inr (u\<lparr>Path := path, RawPath := (if p = escape path encodePath then [] else p)\<rparr>))"


text \<open>
  \<^verbatim>\<open>parse(rawurl, viaRequest)\<close>. The steps are those of the Go function: the special URL
  \<^verbatim>\<open>*\<close>, the scheme, the query, the opaque and relative forms, the authority, the path.
\<close>

definition parseRest :: "URL \<Rightarrow> string \<Rightarrow> bool \<Rightarrow> error + URL" where
  \<comment> \<open>from the test for an authority to the end of \<^verbatim>\<open>parse\<close>\<close>
  "parseRest url rest viaRequest =
     (if (Scheme url \<noteq> [] \<or> \<not> viaRequest \<and> \<not> HasPrefix rest ''///'') \<and> HasPrefix rest ''//''
      then
        (case split (drop 2 rest) ''/'' False of
           (authority, rest') \<Rightarrow>
             (case parseAuthority authority of
                Inl err \<Rightarrow> Inl err
              | Inr (user, host) \<Rightarrow> setPath (url\<lparr>User := user, Host := host\<rparr>) rest'))
      else setPath url rest)"

definition parse :: "string \<Rightarrow> bool \<Rightarrow> error + URL" where
  "parse rawurl viaRequest =
     (if rawurl = [] \<and> viaRequest then Inl (ErrorNew ''empty url'')
      else if rawurl = ''*'' then Inr (emptyURL\<lparr>Path := ''*''\<rparr>)
      else
        (case getscheme rawurl of
           Inl err \<Rightarrow> Inl err
         | Inr (scheme, rest0) \<Rightarrow>
             (let url0 = emptyURL\<lparr>Scheme := ToLower scheme\<rparr>;
                  forced = (HasSuffix rest0 ''?'' \<and> CountByte rest0 CHR ''?'' = 1);
                  rest = (if forced then take (length rest0 - 1) rest0
                          else fst (split rest0 ''?'' True));
                  url = (if forced then url0\<lparr>ForceQuery := True\<rparr>
                         else url0\<lparr>RawQuery := snd (split rest0 ''?'' True)\<rparr>)
              in
                if \<not> HasPrefix rest ''/'' then
                  (if Scheme url \<noteq> [] then Inr (url\<lparr>Opaque := rest\<rparr>)
                   else if viaRequest then Inl (ErrorNew ''invalid URI for request'')
                   else
                     (case Index rest '':'' of
                        None \<Rightarrow> parseRest url rest viaRequest
                      | Some colon \<Rightarrow>
                          (case Index rest ''/'' of
                             None \<Rightarrow>
                               Inl (ErrorNew ''first path segment in URL cannot contain colon'')
                           | Some slash \<Rightarrow>
                               if colon < slash
                                 then Inl (ErrorNew
                                        ''first path segment in URL cannot contain colon'')
                               else parseRest url rest viaRequest)))
                else parseRest url rest viaRequest)))"

definition url_Parse :: "string \<Rightarrow> error + URL" where
  "url_Parse rawurl =
     (case split rawurl ''#'' True of
        (u, frag) \<Rightarrow>
          (case parse u False of
             Inl err \<Rightarrow> Inl (UrlError ''parse'' u err)
           | Inr url \<Rightarrow>
               if frag = [] then Inr url
               else
                 (case unescape frag encodeFragment of
                    Inl err \<Rightarrow> Inl (UrlError ''parse'' rawurl err)
                  | Inr f \<Rightarrow> Inr (url\<lparr>Fragment := f\<rparr>))))"

definition validEncodedPath :: "string \<Rightarrow> bool" where
  "validEncodedPath s =
     list_all (\<lambda>c. if c \<in> set ''!$&()*+,;=:@[]%'' \<or> c = CHR 0x27 then True
                   else if shouldEscape c encodePath then False else True) s"

definition EscapedPath :: "URL \<Rightarrow> string" where
  "EscapedPath u =
     (if RawPath u \<noteq> [] \<and> validEncodedPath (RawPath u)
         \<and> unescape (RawPath u) encodePath = Inr (Path u)
        then RawPath u
      else if Path u = ''*'' then ''*''
      else escape (Path u) encodePath)"

text \<open>
  \<^verbatim>\<open>(*URL).String\<close> writes the pieces into a buffer one after the other; \<open>authorityPart\<close> is
  what it has written when it reaches the path.
\<close>

definition authorityPart :: "URL \<Rightarrow> string" where
  "authorityPart u =
     (if Scheme u \<noteq> [] then Scheme u @ '':'' else [])
     @ (if Scheme u \<noteq> [] \<or> Host u \<noteq> [] \<or> User u \<noteq> None then
          ''//''
          @ (case User u of None \<Rightarrow> [] | Some ui \<Rightarrow> Userinfo_String ui @ ''@'')
          @ (if Host u \<noteq> [] then escape (Host u) encodeHost else [])
        else [])"

definition URL_String :: "URL \<Rightarrow> string" where
  "URL_String u =
     (if Opaque u \<noteq> [] then
        (if Scheme u \<noteq> [] then Scheme u @ '':'' else []) @ Opaque u
      else
        (let path = EscapedPath u;
             buf1 = authorityPart u
                    @ (if path \<noteq> [] \<and> hd path \<noteq> CHR ''/'' \<and> Host u \<noteq> [] then ''/'' else []);
             buf2 = buf1
                    @ (if buf1 = [] then
                         (case Index path '':'' of
                            None \<Rightarrow> []
                          | Some i \<Rightarrow> if Index (take i path) ''/'' = None then ''./'' else [])
                       else [])
         in buf2 @ path))
     @ (if ForceQuery u \<or> RawQuery u \<noteq> [] then ''?'' @ RawQuery u else [])
     @ (if Fragment u \<noteq> [] then ''#'' @ escape (Fragment u) encodeFragment else [])"

section \<open>The endpoint resolver\<close>

definition apiPrefix :: string where
  "apiPrefix = ''api''"

text \<open>
  \<^verbatim>\<open>getCloudAPI\<close>. The last line of the Go function returns \<^verbatim>\<open>err\<close>, which is \<^verbatim>\<open>nil\<close> there:
  the function has passed the test \<^verbatim>\<open>err != nil\<close>.
\<close>

definition getCloudAPI :: "string \<Rightarrow> error + string" where
  "getCloudAPI cloudURL =
     (if cloudURL = [] then Inl (ErrorNew ''missing cloud URL'')
      else
        (case url_Parse cloudURL of
           Inl err \<Rightarrow> Inl (ErrorWrap ''malformed cloud URL'' err)
         | Inr url \<Rightarrow>
             if RawQuery url \<noteq> [] \<or> Fragment url \<noteq> [] then
               Inl (ErrorNew (''cloud URL may not contain querystring or fragment: '' @ cloudURL))
             else
               (let url' = (if \<not> HasPrefix (Host url) (apiPrefix @ ''.'')
                            then url\<lparr>Host := apiPrefix @ ''.'' @ Host url\<rparr> else url)
                in Inr (TrimSuffix (URL_String url') ''/''))))"


section \<open>The authenticated transport\<close>

text \<open>
  An \<^verbatim>\<open>http.Request\<close> with the fields the client sets, and an \<^verbatim>\<open>http.Response\<close> with the
  fields it reads. \<open>Header\<close> is a \<^verbatim>\<open>map[string][]string\<close>. \<open>Body\<close> is what
  \<^verbatim>\<open>ioutil.ReadAll(resp.Body)\<close> returns for the response: the bytes of the body, or the
  error of the read.
\<close>

record Request =
  Method :: string
  ReqURL :: URL
  Header :: "string \<rightharpoonup> string list"
  ReqBody :: string
  ReqHost :: string

record Response =
  StatusCode :: int
  Body :: "error + string"

text \<open>
  What lies outside the program is a parameter of the model: the credential store behind
  \<^verbatim>\<open>workspace.GetAccessToken\<close>, the JSON codec for the caller's request and response objects
  and for \<^verbatim>\<open>apitype.ErrorResponse\<close>, and the network behind \<^verbatim>\<open>client.Do\<close>.
  \<^verbatim>\<open>json.Unmarshal\<close> writes into the object it is given: it takes the object as it is before
  the call and returns the error (if any) and the object as it is after the call.
\<close>

record ('req, 'resp) Env =
  GetAccessToken :: "string \<Rightarrow> error + string"
  json_Marshal :: "'req \<Rightarrow> error + string"
  json_Unmarshal :: "string \<Rightarrow> 'resp \<Rightarrow> error option \<times> 'resp"
  json_Unmarshal_ErrorResponse :: "string \<Rightarrow> ErrorResponse \<Rightarrow> error option \<times> ErrorResponse"
  client_Do :: "Request \<Rightarrow> error + Response"

subsection \<open>http.NewRequest\<close>

definition isTokenByte :: "char \<Rightarrow> bool" where
  "isTokenByte c = (isAlnum c \<or> c \<in> set ''!#$%&*+-.^_`|~'' \<or> c = CHR 0x27)"

definition validMethod :: "string \<Rightarrow> bool" where
  "validMethod method = (method \<noteq> [] \<and> list_all isTokenByte method)"

definition hasPort :: "string \<Rightarrow> bool" where
  "hasPort s =
     (case LastIndex s '':'' of
        None \<Rightarrow> False
      | Some i \<Rightarrow> (case LastIndex s '']'' of None \<Rightarrow> True | Some j \<Rightarrow> j < i))"

definition removeEmptyPort :: "string \<Rightarrow> string" where
  "removeEmptyPort host = (if hasPort host then TrimSuffix host '':'' else host)"

definition http_NewRequest :: "string \<Rightarrow> string \<Rightarrow> string \<Rightarrow> error + Request" where
  "http_NewRequest method0 urlStr body =
     (let method = (if method0 = [] then ''GET'' else method0) in
      if \<not> validMethod method then Inl (ErrorNew (''net/http: invalid method '' @ method))
      else
        (case url_Parse urlStr of
           Inl err \<Rightarrow> Inl err
         | Inr u \<Rightarrow>
             Inr \<lparr>Method = method, ReqURL = u\<lparr>Host := removeEmptyPort (Host u)\<rparr>,
                  Header = Map.empty, ReqBody = body, ReqHost = removeEmptyPort (Host u)\<rparr>))"

definition Header_Set :: "Request \<Rightarrow> string \<Rightarrow> string \<Rightarrow> Request" where
  \<comment> \<open>\<^verbatim>\<open>req.Header.Set(key, value)\<close>, for a key in canonical form\<close>
  "Header_Set req key v = req\<lparr>Header := (Header req)(key \<mapsto> [v])\<rparr>"

subsection \<open>pulumiAPICall\<close>

text \<open>
  The requests handed to \<^verbatim>\<open>client.Do\<close> are the effect of a call. Each function takes the
  list of the requests sent so far and returns it with its own requests appended. The
  \<^verbatim>\<open>glog\<close> calls write diagnostics only and are left out.
\<close>

definition pulumiAPICall ::
  "('req, 'resp) Env \<Rightarrow> string \<Rightarrow> string \<Rightarrow> string \<Rightarrow> string \<Rightarrow> string \<Rightarrow> Request list
     \<Rightarrow> (error + (string \<times> Response)) \<times> Request list" where
  "pulumiAPICall env cloudAPI method path body accessToken sent =
     (case getCloudAPI cloudAPI of
        Inl err \<Rightarrow> (Inl (ErrorWrap ''getting Pulumi API endpoint'' err), sent)
      | Inr apiEndpoint0 \<Rightarrow>
          (let apiEndpoint = TrimSuffix apiEndpoint0 ''/'';
               path' = TrimPrefix path ''/'';
               url = apiEndpoint @ ''/api/'' @ path'
           in
             (case http_NewRequest method url body of
                Inl err \<Rightarrow> (Inl (ErrorWrap ''creating new HTTP request'' err), sent)
              | Inr req0 \<Rightarrow>
                  (let req1 = Header_Set req0 ''Content-Type'' ''application/json'';
                       req = (if accessToken \<noteq> []
                              then Header_Set req1 ''Authorization'' (''token '' @ accessToken)
                              else req1)
                   in
                     (case client_Do env req of
                        Inl err \<Rightarrow> (Inl (ErrorWrap ''performing HTTP request'' err), sent @ [req])
                      | Inr resp \<Rightarrow> (Inr (url, resp), sent @ [req]))))))"

section \<open>The REST call and the response decoder\<close>

definition zeroErrorResponse :: ErrorResponse where
  \<comment> \<open>\<^verbatim>\<open>var errResp apitype.ErrorResponse\<close>\<close>
  "zeroErrorResponse = \<lparr>Code = 0, Message = []\<rparr>"

definition loginAdvice :: string where
  "loginAdvice =
     ''this command requires logging in; try running '' @ [CHR 0x27] @ ''pulumi login''
     @ [CHR 0x27] @ '' first''"

text \<open>
  \<^verbatim>\<open>pulumiRESTCallWithAccessToken\<close>. \<open>reqObj\<close> and \<open>respObj\<close> are \<open>None\<close> for Go's
  \<^verbatim>\<open>nil\<close>. The result is the returned error (\<open>None\<close> for \<^verbatim>\<open>nil\<close>), the response object
  after the call, and the requests sent.
\<close>

definition pulumiRESTCallWithAccessToken ::
  "('req, 'resp) Env \<Rightarrow> string \<Rightarrow> string \<Rightarrow> string \<Rightarrow> 'req option \<Rightarrow> 'resp option \<Rightarrow> string
     \<Rightarrow> Request list \<Rightarrow> error option \<times> 'resp option \<times> Request list" where
  "pulumiRESTCallWithAccessToken env cloudAPI method path reqObj respObj token sent =
     (case (case reqObj of None \<Rightarrow> Inr [] | Some obj \<Rightarrow> json_Marshal env obj) of
        Inl err \<Rightarrow> (Some (ErrorWrap ''marshalling request object as JSON'' err), respObj, sent)
      | Inr reqBody \<Rightarrow>
          (case pulumiAPICall env cloudAPI method path reqBody token sent of
             (Inl err, sent') \<Rightarrow> (Some (ErrorWrap ''calling API'' err), respObj, sent')
           | (Inr (url, resp), sent') \<Rightarrow>
               (case Body resp of
                  Inl err \<Rightarrow> (Some (ErrorWrap ''reading response from API'' err), respObj, sent')
                | Inr respBody \<Rightarrow>
                    if 400 \<le> StatusCode resp \<and> StatusCode resp \<le> 599 then
                      (if StatusCode resp = 401 then (Some (ErrorNew loginAdvice), respObj, sent')
                       else
                         (case json_Unmarshal_ErrorResponse env respBody zeroErrorResponse of
                            (Some err, errResp) \<Rightarrow>
                              (Some (ErrorResp (errResp\<lparr>Code := StatusCode resp,
                                                        Message := TrimSpace respBody\<rparr>)),
                               respObj, sent')
                          | (None, errResp) \<Rightarrow> (Some (ErrorResp errResp), respObj, sent')))
                    else
                      (case respObj of
                         None \<Rightarrow> (None, None, sent')
                       | Some target \<Rightarrow>
                           (case json_Unmarshal env respBody target of
                              (Some err, target') \<Rightarrow>
                                (Some (ErrorWrap ''unmarshalling response object'' err),
                                 Some target', sent')
                            | (None, target') \<Rightarrow> (None, Some target', sent'))))))"

definition pulumiRESTCall ::
  "('req, 'resp) Env \<Rightarrow> string \<Rightarrow> string \<Rightarrow> string \<Rightarrow> 'req option \<Rightarrow> 'resp option
     \<Rightarrow> Request list \<Rightarrow> error option \<times> 'resp option \<times> Request list" where
  "pulumiRESTCall env cloudAPI method path reqObj respObj sent =
     (case GetAccessToken env cloudAPI of
        Inl err \<Rightarrow> (Some (ErrorWrap ''getting stored credentials'' err), respObj, sent)
      | Inr token \<Rightarrow>
          pulumiRESTCallWithAccessToken env cloudAPI method path reqObj respObj token sent)"


section \<open>A sample environment\<close>

text \<open>
  An environment to run the model on concrete inputs: the credential store answers \<open>tok\<close>,
  the network answers every request with \<open>resp\<close>, the response object is a Go \<^verbatim>\<open>int\<close>
  that decodes from the body \<^verbatim>\<open>42\<close>, and the error payload decodes from the empty JSON
  object, which sets no field.
\<close>

definition sampleEnv :: "error + string \<Rightarrow> Response \<Rightarrow> (unit, int) Env" where
  "sampleEnv tok resp =
     \<lparr>GetAccessToken = (\<lambda>cloudAPI. tok),
      json_Marshal = (\<lambda>obj. Inr ''null''),
      json_Unmarshal = (\<lambda>b target. if b = ''42'' then (None, 42)
                                    else (Some (ErrorNew ''invalid character''), target)),
      json_Unmarshal_ErrorResponse = (\<lambda>b target. if b = ''{}'' then (None, target)
                                    else (Some (ErrorNew ''invalid character''), target)),
      client_Do = (\<lambda>req. Inr resp)\<rparr>"

section \<open>Facts about the string helpers\<close>

lemma HasSuffix_snoc1 [simp]: "HasSuffix (xs @ [x]) [c] = (x = c)"
  by (simp add: HasSuffix_def)

lemma HasSuffix_Nil1 [simp]: "HasSuffix [] [c] = False"
  by (simp add: HasSuffix_def)

lemma HasSuffix_snoc2 [simp]: "HasSuffix (xs @ [x]) [c, d] = (x = d \<and> HasSuffix xs [c])"
proof (cases xs rule: rev_cases)
  case Nil
  then show ?thesis by (simp add: HasSuffix_def)
next
  case (snoc ys y)
  then show ?thesis by (auto simp add: HasSuffix_def)
qed

lemma TrimSuffix_snoc1 [simp]: "TrimSuffix (xs @ [x]) [c] = (if x = c then xs else xs @ [x])"
  by (simp add: TrimSuffix_def)

lemma TrimSuffix_Nil [simp]: "TrimSuffix [] [c] = []"
  by (simp add: TrimSuffix_def)

lemma TrimSuffix_slash_ends:
  "HasSuffix (TrimSuffix s ''/'') ''/'' = HasSuffix s ''//''"
  by (cases s rule: rev_cases) (auto simp add: HasSuffix_def)

lemma TrimSuffix_slash_cases:
  "(if HasSuffix s ''/'' then s = TrimSuffix s ''/'' @ ''/'' else s = TrimSuffix s ''/'')"
  by (cases s rule: rev_cases) auto

section \<open>The endpoint resolver: when it fails, what it returns\<close>

text \<open>
  C3. \<^verbatim>\<open>getCloudAPI\<close> returns an error exactly when the raw URL is empty, or \<^verbatim>\<open>url.Parse\<close>
  rejects it, or the parsed URL has a non-empty \<^verbatim>\<open>RawQuery\<close> or \<^verbatim>\<open>Fragment\<close>; on every
  other input it returns a string.
\<close>

theorem getCloudAPI_fails_iff:
  "isl (getCloudAPI rawURL) =
     (rawURL = [] \<or> (case url_Parse rawURL of
                        Inl err \<Rightarrow> True
                      | Inr url \<Rightarrow> RawQuery url \<noteq> [] \<or> Fragment url \<noteq> []))"
  by (simp add: getCloudAPI_def Let_def split: sum.splits)

theorem getCloudAPI_fails_iff_witness:
  "isl (getCloudAPI ''https://example.com?x=1'') \<and> isl (getCloudAPI [])
   \<and> \<not> isl (getCloudAPI ''https://example.com'')"
proof -
  have a: "(case url_Parse ''https://example.com?x=1'' of
              Inl err \<Rightarrow> True | Inr url \<Rightarrow> RawQuery url \<noteq> [] \<or> Fragment url \<noteq> [])"
    by code_simp
  have b: "\<not> (case url_Parse ''https://example.com'' of
              Inl err \<Rightarrow> True | Inr url \<Rightarrow> RawQuery url \<noteq> [] \<or> Fragment url \<noteq> [])"
    by code_simp
  show ?thesis
    using a b getCloudAPI_fails_iff [of "''https://example.com?x=1''"]
      getCloudAPI_fails_iff [of "[]"] getCloudAPI_fails_iff [of "''https://example.com''"]
    by simp
qed

text \<open>
  C4. For a raw URL that \<^verbatim>\<open>getCloudAPI\<close> accepts and whose parsed host does not start with
  \<^verbatim>\<open>api.\<close>, the result is the parsed URL with \<^verbatim>\<open>api.\<close> put in front of its host, written
  back as a string (less one trailing slash); a host that starts with \<^verbatim>\<open>api.\<close> is left as
  it is. For \<^verbatim>\<open>https://example.com\<close> the result is \<^verbatim>\<open>https://api.example.com\<close>.
\<close>

theorem getCloudAPI_host:
  "(rawURL \<noteq> [] \<and> url_Parse rawURL = Inr url \<and> RawQuery url = [] \<and> Fragment url = [] \<longrightarrow>
      (\<not> HasPrefix (Host url) ''api.'' \<longrightarrow>
         getCloudAPI rawURL = Inr (TrimSuffix (URL_String (url\<lparr>Host := ''api.'' @ Host url\<rparr>)) ''/''))
    \<and> (HasPrefix (Host url) ''api.'' \<longrightarrow>
         getCloudAPI rawURL = Inr (TrimSuffix (URL_String url) ''/'')))
   \<and> getCloudAPI ''https://example.com'' = Inr ''https://api.example.com''"
proof -
  have "getCloudAPI ''https://example.com'' = Inr ''https://api.example.com''"
    by code_simp
  then show ?thesis
    by (simp add: getCloudAPI_def apiPrefix_def Let_def)
qed

theorem getCloudAPI_host_witness:
  "getCloudAPI ''http://cloud.test/v1'' = Inr ''http://api.cloud.test/v1''
   \<and> getCloudAPI ''http://api.cloud.test/v1'' = Inr ''http://api.cloud.test/v1''"
proof -
  let ?u = "\<lparr>Scheme = ''http'', Opaque = [], User = None, Host = ''cloud.test'',
             Path = ''/v1'', RawPath = [], ForceQuery = False, RawQuery = [], Fragment = []\<rparr>"
  let ?v = "\<lparr>Scheme = ''http'', Opaque = [], User = None, Host = ''api.cloud.test'',
             Path = ''/v1'', RawPath = [], ForceQuery = False, RawQuery = [], Fragment = []\<rparr>"
  have pu: "url_Parse ''http://cloud.test/v1'' = Inr ?u" by code_simp
  have pv: "url_Parse ''http://api.cloud.test/v1'' = Inr ?v" by code_simp
  have hu: "\<not> HasPrefix (Host ?u) ''api.''" by code_simp
  have hv: "HasPrefix (Host ?v) ''api.''" by code_simp
  have su: "TrimSuffix (URL_String (?u\<lparr>Host := ''api.'' @ Host ?u\<rparr>)) ''/'' = ''http://api.cloud.test/v1''"
    by code_simp
  have sv: "TrimSuffix (URL_String ?v) ''/'' = ''http://api.cloud.test/v1''"
    by code_simp
  show ?thesis
    using getCloudAPI_host [of "''http://cloud.test/v1''" ?u] 
          getCloudAPI_host [of "''http://api.cloud.test/v1''" ?v] pu pv hu hv su sv
    by simp
qed

text \<open>
  The claim that the result never ends with a slash does not hold: \<^verbatim>\<open>strings.TrimSuffix\<close>
  removes one slash, and a URL whose path ends with two slashes keeps the other one.
\<close>

theorem getCloudAPI_trailing_slash_counterexample:
  "getCloudAPI ''https://api.example.com//'' = Inr ''https://api.example.com/''
   \<and> last ''https://api.example.com/'' = CHR ''/''"
  by code_simp

text \<open>
  C6 (amended). The result of \<^verbatim>\<open>getCloudAPI\<close> is the serialised URL with exactly one
  trailing slash removed when it has one: the result ends with a slash exactly when the
  serialised URL ends with two. For \<^verbatim>\<open>https://example.com/\<close> the result is
  \<^verbatim>\<open>https://api.example.com\<close>.
\<close>

theorem getCloudAPI_trims_one_slash:
  "(getCloudAPI rawURL = Inr e \<and> url_Parse rawURL = Inr url \<longrightarrow>
      (let ser = URL_String (if HasPrefix (Host url) ''api.'' then url
                             else url\<lparr>Host := ''api.'' @ Host url\<rparr>)
       in e = TrimSuffix ser ''/''
          \<and> (if HasSuffix ser ''/'' then ser = e @ ''/'' else ser = e)
          \<and> HasSuffix e ''/'' = HasSuffix ser ''//''))
   \<and> getCloudAPI ''https://example.com/'' = Inr ''https://api.example.com''"
proof -
  define ser where "ser = URL_String (if HasPrefix (Host url) ''api.'' then url
                             else url\<lparr>Host := ''api.'' @ Host url\<rparr>)"
  have ex: "getCloudAPI ''https://example.com/'' = Inr ''https://api.example.com''"
    by code_simp
  have gen: "e = TrimSuffix ser ''/''"
    if "getCloudAPI rawURL = Inr e" "url_Parse rawURL = Inr url"
    using that by (auto simp add: ser_def getCloudAPI_def apiPrefix_def Let_def split: if_splits)
  have "e = TrimSuffix ser ''/''
          \<and> (if HasSuffix ser ''/'' then ser = e @ ''/'' else ser = e)
          \<and> HasSuffix e ''/'' = HasSuffix ser ''//''"
    if "getCloudAPI rawURL = Inr e" "url_Parse rawURL = Inr url"
    using gen [OF that] TrimSuffix_slash_cases [of ser] TrimSuffix_slash_ends [of ser]
    by simp
  then show ?thesis
    using ex unfolding ser_def Let_def by blast
qed

theorem getCloudAPI_trims_one_slash_witness:
  "getCloudAPI ''https://example.com/v1/'' = Inr ''https://api.example.com/v1''
   \<and> HasSuffix ''https://api.example.com/v1'' ''/'' = False"
proof -
  let ?u = "\<lparr>Scheme = ''https'', Opaque = [], User = None, Host = ''example.com'',
             Path = ''/v1/'', RawPath = [], ForceQuery = False, RawQuery = [], Fragment = []\<rparr>"
  let ?ser = "URL_String (if HasPrefix (Host ?u) ''api.'' then ?u
                          else ?u\<lparr>Host := ''api.'' @ Host ?u\<rparr>)"
  have pu: "url_Parse ''https://example.com/v1/'' = Inr ?u" by code_simp
  have g: "getCloudAPI ''https://example.com/v1/'' = Inr ''https://api.example.com/v1''"
    by code_simp
  have n: "HasSuffix ?ser ''//'' = False" by code_simp
  have "HasSuffix ''https://api.example.com/v1'' ''/'' = HasSuffix ?ser ''//''"
    using getCloudAPI_trims_one_slash
            [of "''https://example.com/v1/''" "''https://api.example.com/v1''" ?u] pu g
    unfolding Let_def by blast
  with n g show ?thesis by simp
qed

end
